theory Spec2Isabelle
  imports Main "HOL-Library.Word"
begin

unbundle bit_operations_syntax

section \<open>Python values\<close>

text \<open>
  A Python \<open>str\<close> is represented by the list of its UTF-8 bytes (an Isabelle \<open>char\<close> is a
  byte), so \<open>s.encode('utf-8')\<close> is the identity on the representation. Python integers
  are unbounded: \<open>int\<close>.
\<close>

fun str_nat :: "nat \<Rightarrow> string" where
  "str_nat n =
     (if n < 10 then [''0123456789'' ! n]
      else str_nat (n div 10) @ [''0123456789'' ! (n mod 10)])"

declare str_nat.simps [simp del]

definition str_int :: "int \<Rightarrow> string" where
  \<comment> \<open>\<open>str(i)\<close> for a Python int\<close>
  "str_int i = (if i < 0 then ''-'' @ str_nat (nat (- i)) else str_nat (nat i))"

definition str_bool :: "bool \<Rightarrow> string" where
  \<comment> \<open>\<open>str(b)\<close> for a Python bool\<close>
  "str_bool b = (if b then ''True'' else ''False'')"

definition lower_char :: "char \<Rightarrow> char" where
  "lower_char c =
     (case map_of (zip ''ABCDEFGHIJKLMNOPQRSTUVWXYZ'' ''abcdefghijklmnopqrstuvwxyz'') c of
        Some l \<Rightarrow> l
      | None \<Rightarrow> c)"

definition upper_char :: "char \<Rightarrow> char" where
  "upper_char c =
     (case map_of (zip ''abcdefghijklmnopqrstuvwxyz'' ''ABCDEFGHIJKLMNOPQRSTUVWXYZ'') c of
        Some u \<Rightarrow> u
      | None \<Rightarrow> c)"

definition lower :: "string \<Rightarrow> string" where
  \<comment> \<open>\<open>s.lower()\<close>, on the ASCII letters (bytes of other code points are kept)\<close>
  "lower s = map lower_char s"

definition upper :: "string \<Rightarrow> string" where
  \<comment> \<open>\<open>s.upper()\<close>, on the ASCII letters (bytes of other code points are kept)\<close>
  "upper s = map upper_char s"

fun rstrip_slash :: "string \<Rightarrow> string" where
  \<comment> \<open>\<open>s.rstrip("/")\<close>\<close>
  "rstrip_slash [] = []"
| "rstrip_slash (c # cs) =
     (let r = rstrip_slash cs in if r = [] \<and> c = CHR ''/'' then [] else c # r)"

fun join :: "string \<Rightarrow> string list \<Rightarrow> string" where
  \<comment> \<open>\<open>sep.join(l)\<close>\<close>
  "join sep [] = []"
| "join sep [x] = x"
| "join sep (x # y # ys) = x @ sep @ join sep (y # ys)"

subsection \<open>Floats\<close>

text \<open>
  A Python float is an IEEE double: a finite one is \<open>\<plusminus> m * 2 ^ e\<close> with the sign kept
  apart (there is a negative zero), or it is an infinity or a NaN.
\<close>

datatype pyfloat = Finite bool nat int | Infinity bool | NaN

definition round_half_even :: "nat \<Rightarrow> nat \<Rightarrow> nat" where
  \<comment> \<open>the integer nearest to \<open>num / den\<close>, ties to the even one\<close>
  "round_half_even num den =
     (let q = num div den; r = num mod den
      in if 2 * r > den \<or> (2 * r = den \<and> odd q) then q + 1 else q)"

definition scaled6 :: "nat \<Rightarrow> int \<Rightarrow> nat" where
  \<comment> \<open>\<open>m * 2 ^ e * 10 ^ 6\<close>, correctly rounded to an integer\<close>
  "scaled6 m e =
     (if 0 \<le> e then m * 2 ^ nat e * 10 ^ 6
      else round_half_even (m * 10 ^ 6) (2 ^ nat (- e)))"

definition zfill6 :: "string \<Rightarrow> string" where
  "zfill6 s = replicate (6 - length s) CHR ''0'' @ s"

definition format_f :: "pyfloat \<Rightarrow> string" where
  \<comment> \<open>\<open>format(x, 'f')\<close>: six digits after the point, correctly rounded\<close>
  "format_f x =
     (case x of
        NaN \<Rightarrow> ''nan''
      | Infinity s \<Rightarrow> (if s then ''-inf'' else ''inf'')
      | Finite s m e \<Rightarrow>
          (let n = scaled6 m e
           in (if s then ''-'' else '''') @ str_nat (n div 10 ^ 6) @ ''.''
              @ zfill6 (str_nat (n mod 10 ^ 6))))"

subsection \<open>Dictionaries\<close>

text \<open>
  A \<open>dict\<close> keeps the insertion order of its keys: an association list. \<open>d[k] = v\<close>
  replaces the value of a key that is present, at its place, and appends a new key.
\<close>

datatype pyval = PStr string | PInt int

type_synonym pydict = "(string \<times> pyval) list"

fun dict_set :: "pydict \<Rightarrow> string \<Rightarrow> pyval \<Rightarrow> pydict" where
  "dict_set [] k v = [(k, v)]"
| "dict_set ((k', v') # d) k v =
     (if k' = k then (k, v) # d else (k', v') # dict_set d k v)"

definition keys :: "pydict \<Rightarrow> string list" where
  "keys d = map fst d"

definition str_pyval :: "pyval \<Rightarrow> string" where
  "str_pyval v = (case v of PStr s \<Rightarrow> s | PInt i \<Rightarrow> str_int i)"

subsection \<open>urllib.parse\<close>

definition always_safe :: "string" where
  "always_safe =
     ''ABCDEFGHIJKLMNOPQRSTUVWXYZabcdefghijklmnopqrstuvwxyz0123456789_.-~''"

definition hex_upper :: "nat \<Rightarrow> string" where
  \<comment> \<open>\<open>'{:02X}'.format(n)\<close> for a byte\<close>
  "hex_upper n = [''0123456789ABCDEF'' ! (n div 16), ''0123456789ABCDEF'' ! (n mod 16)]"

definition quote_char :: "char \<Rightarrow> string" where
  "quote_char c =
     (if c \<in> set always_safe then [c]
      else if c = CHR '' '' then ''+''
      else CHR ''%'' # hex_upper (of_char c))"

definition quote_plus :: "string \<Rightarrow> string" where
  \<comment> \<open>\<open>quote_plus(s)\<close> with the default \<open>safe=''\<close>\<close>
  "quote_plus s = concat (map quote_char s)"

definition urlencode_item :: "string \<times> pyval \<Rightarrow> string" where
  "urlencode_item kv = quote_plus (fst kv) @ ''='' @ quote_plus (str_pyval (snd kv))"

definition urlencode :: "pydict \<Rightarrow> string" where
  \<comment> \<open>\<open>urlencode(d, doseq=True)\<close> for values that are str or int\<close>
  "urlencode d = join ''&'' (map urlencode_item d)"

section \<open>hashlib and hmac\<close>

text \<open>
  SHA-256 (FIPS 180-4) on byte strings and HMAC (RFC 2104) over it, as
  \<open>hmac.new(key, msg, hashlib.sha256)\<close> computes them.
\<close>

type_synonym w32 = "32 word"

definition rotr :: "nat \<Rightarrow> w32 \<Rightarrow> w32" where
  "rotr n x = word_rotr n x"

definition ch :: "w32 \<Rightarrow> w32 \<Rightarrow> w32 \<Rightarrow> w32" where
  "ch x y z = (x AND y) XOR (NOT x AND z)"

definition maj :: "w32 \<Rightarrow> w32 \<Rightarrow> w32 \<Rightarrow> w32" where
  "maj x y z = (x AND y) XOR (x AND z) XOR (y AND z)"

definition bsig0 :: "w32 \<Rightarrow> w32" where
  "bsig0 x = rotr 2 x XOR rotr 13 x XOR rotr 22 x"

definition bsig1 :: "w32 \<Rightarrow> w32" where
  "bsig1 x = rotr 6 x XOR rotr 11 x XOR rotr 25 x"

definition ssig0 :: "w32 \<Rightarrow> w32" where
  "ssig0 x = rotr 7 x XOR rotr 18 x XOR drop_bit 3 x"

definition ssig1 :: "w32 \<Rightarrow> w32" where
  "ssig1 x = rotr 17 x XOR rotr 19 x XOR drop_bit 10 x"

definition K256 :: "w32 list" where
  \<comment> \<open>the round constants: the first 32 bits of the fractional parts of the cube roots
      of the first 64 primes (written in decimal)\<close>
  "K256 =
     [1116352408, 1899447441, 3049323471, 3921009573, 961987163, 1508970993,
      2453635748, 2870763221, 3624381080, 310598401, 607225278, 1426881987,
      1925078388, 2162078206, 2614888103, 3248222580, 3835390401, 4022224774,
      264347078, 604807628, 770255983, 1249150122, 1555081692, 1996064986,
      2554220882, 2821834349, 2952996808, 3210313671, 3336571891, 3584528711,
      113926993, 338241895, 666307205, 773529912, 1294757372, 1396182291,
      1695183700, 1986661051, 2177026350, 2456956037, 2730485921, 2820302411,
      3259730800, 3345764771, 3516065817, 3600352804, 4094571909, 275423344,
      430227734, 506948616, 659060556, 883997877, 958139571, 1322822218,
      1537002063, 1747873779, 1955562222, 2024104815, 2227730452, 2361852424,
      2428436474, 2756734187, 3204031479, 3329325298]"

definition H256 :: "w32 list" where
  \<comment> \<open>the initial hash value: the same of the square roots of the first 8 primes\<close>
  "H256 =
     [1779033703, 3144134277, 1013904242, 2773480762,
      1359893119, 2600822924, 528734635, 1541459225]"

definition word_of_bytes :: "string \<Rightarrow> w32" where
  \<comment> \<open>big-endian\<close>
  "word_of_bytes bs = foldl (\<lambda>w c. push_bit 8 w OR word_of_nat (of_char c)) 0 bs"

definition bytes_of_word :: "w32 \<Rightarrow> string" where
  "bytes_of_word w =
     map (\<lambda>i. char_of (unat (drop_bit i w) mod 256)) [24, 16, 8, 0]"

fun words_of_block :: "nat \<Rightarrow> string \<Rightarrow> w32 list" where
  "words_of_block 0 bs = []"
| "words_of_block (Suc n) bs = word_of_bytes (take 4 bs) # words_of_block n (drop 4 bs)"

fun schedule :: "nat \<Rightarrow> w32 list \<Rightarrow> w32 list" where
  "schedule 0 ws = ws"
| "schedule (Suc n) ws =
     (let t = length ws
      in schedule n
           (ws @ [ssig1 (ws ! (t - 2)) + ws ! (t - 7) + ssig0 (ws ! (t - 15)) + ws ! (t - 16)]))"

fun round_step :: "w32 \<times> w32 \<Rightarrow> w32 list \<Rightarrow> w32 list" where
  "round_step (k, w) [a, b, c, d, e, f, g, h] =
     (let t1 = h + bsig1 e + ch e f g + k + w;
          t2 = bsig0 a + maj a b c
      in [t1 + t2, a, b, c, d + t1, e, f, g])"
| "round_step kw s = s"

definition compress :: "w32 list \<Rightarrow> string \<Rightarrow> w32 list" where
  "compress hs block =
     map2 (+) hs (fold round_step (zip K256 (schedule 48 (words_of_block 16 block))) hs)"

fun sha_blocks :: "w32 list \<Rightarrow> string \<Rightarrow> w32 list" where
  "sha_blocks hs bs =
     (if length bs < 64 then hs else sha_blocks (compress hs (take 64 bs)) (drop 64 bs))"

declare sha_blocks.simps [simp del]

definition sha_pad :: "string \<Rightarrow> string" where
  "sha_pad msg =
     msg @ [char_of (128 :: nat)]
       @ replicate ((119 - length msg mod 64) mod 64) (char_of (0 :: nat))
       @ map (\<lambda>i. char_of ((8 * length msg) div 256 ^ i mod 256)) [7, 6, 5, 4, 3, 2, 1, 0]"

definition sha256 :: "string \<Rightarrow> string" where
  \<comment> \<open>\<open>hashlib.sha256(msg).digest()\<close>\<close>
  "sha256 msg = concat (map bytes_of_word (sha_blocks H256 (sha_pad msg)))"

definition xor_byte :: "nat \<Rightarrow> char \<Rightarrow> char" where
  "xor_byte p c = char_of (of_char c XOR p)"

definition hmac_key :: "string \<Rightarrow> string" where
  \<comment> \<open>the key, hashed when longer than a block, then filled with zero bytes\<close>
  "hmac_key key =
     (let k = (if length key > 64 then sha256 key else key)
      in k @ replicate (64 - length k) (char_of (0 :: nat)))"

definition hmac_sha256 :: "string \<Rightarrow> string \<Rightarrow> string" where
  \<comment> \<open>\<open>hmac.new(key, msg, hashlib.sha256).digest()\<close>\<close>
  "hmac_sha256 key msg =
     sha256 (map (xor_byte 92) (hmac_key key)
             @ sha256 (map (xor_byte 54) (hmac_key key) @ msg))"

definition hex_lower :: "nat \<Rightarrow> string" where
  "hex_lower n = [''0123456789abcdef'' ! (n div 16), ''0123456789abcdef'' ! (n mod 16)]"

definition hexdigest :: "string \<Rightarrow> string" where
  "hexdigest d = concat (map (\<lambda>c. hex_lower (of_char c)) d)"

section \<open>JSON values and HTTP\<close>

text \<open>
  What \<open>r.json()\<close> can return, and the builtins the client applies to it.
\<close>

datatype json =
    JNull | JBool bool | JInt int | JFloat pyfloat | JStr string
  | JList "json list" | JDict "(string \<times> json) list"

record response =
  status_code :: nat
  reason :: string
  url_r :: string
  text_r :: string
  json_r :: "string + json"
    \<comment> \<open>what \<open>r.json()\<close> gives: the decoded body, or the message of its JSONDecodeError\<close>

datatype verb = GET | POST | DELETE

record request =
  verb :: verb
  url :: string
  apikey :: string  \<comment> \<open>the session header \<open>X-MBX-APIKEY\<close>\<close>
  data :: "string option"
  params :: "pydict option"
  timeout :: nat

datatype exc =
    HTTPError string response
  | RequestException string string
      \<comment> \<open>a \<open>requests\<close> exception with no response: its class and its message\<close>
  | JSONDecodeError string
  | TypeError string
  | ValueError string
  | AttributeError string
  | OverflowError string

fun exc_str :: "exc \<Rightarrow> string" where
  \<comment> \<open>\<open>str(e)\<close>\<close>
  "exc_str (HTTPError m r) = m"
| "exc_str (RequestException c m) = m"
| "exc_str (JSONDecodeError m) = m"
| "exc_str (TypeError m) = m"
| "exc_str (ValueError m) = m"
| "exc_str (AttributeError m) = m"
| "exc_str (OverflowError m) = m"

definition raise_for_status :: "response \<Rightarrow> exc + unit" where
  "raise_for_status r =
     (if 400 \<le> status_code r \<and> status_code r < 500 then
        Inl (HTTPError (str_nat (status_code r) @ '' Client Error: '' @ reason r
                        @ '' for url: '' @ url_r r) r)
      else if 500 \<le> status_code r \<and> status_code r < 600 then
        Inl (HTTPError (str_nat (status_code r) @ '' Server Error: '' @ reason r
                        @ '' for url: '' @ url_r r) r)
      else Inr ())"

definition type_name :: "json \<Rightarrow> string" where
  "type_name j =
     (case j of
        JNull \<Rightarrow> ''NoneType'' | JBool b \<Rightarrow> ''bool'' | JInt i \<Rightarrow> ''int''
      | JFloat f \<Rightarrow> ''float'' | JStr s \<Rightarrow> ''str'' | JList l \<Rightarrow> ''list''
      | JDict d \<Rightarrow> ''dict'')"

definition json_get :: "json \<Rightarrow> string \<Rightarrow> exc + json" where
  \<comment> \<open>\<open>j.get(k)\<close>: only a dict has the method\<close>
  "json_get j k =
     (case j of
        JDict d \<Rightarrow> Inr (case map_of d k of Some v \<Rightarrow> v | None \<Rightarrow> JNull)
      | _ \<Rightarrow>
          Inl (AttributeError ([CHR 0x27] @ type_name j @ [CHR 0x27]
                 @ '' object has no attribute '' @ [CHR 0x27] @ ''get'' @ [CHR 0x27])))"

definition truthy :: "json \<Rightarrow> bool" where
  \<comment> \<open>\<open>bool(j)\<close>\<close>
  "truthy j =
     (case j of
        JNull \<Rightarrow> False
      | JBool b \<Rightarrow> b
      | JInt i \<Rightarrow> i \<noteq> 0
      | JFloat f \<Rightarrow> (case f of Finite s m e \<Rightarrow> m \<noteq> 0 | _ \<Rightarrow> True)
      | JStr s \<Rightarrow> s \<noteq> []
      | JList l \<Rightarrow> l \<noteq> []
      | JDict d \<Rightarrow> d \<noteq> [])"

definition trunc_float :: "bool \<Rightarrow> nat \<Rightarrow> int \<Rightarrow> int" where
  \<comment> \<open>a finite float, truncated towards zero\<close>
  "trunc_float s m e =
     (let a = (if 0 \<le> e then int m * 2 ^ nat e else int m div 2 ^ nat (- e))
      in if s then - a else a)"

definition py_int :: "(string \<Rightarrow> string + int) \<Rightarrow> json \<Rightarrow> exc + int" where
  \<comment> \<open>\<open>int(j)\<close>; the parser of \<open>int(str)\<close> is the argument\<close>
  "py_int parse j =
     (case j of
        JBool b \<Rightarrow> Inr (if b then 1 else 0)
      | JInt i \<Rightarrow> Inr i
      | JFloat f \<Rightarrow>
          (case f of
             Finite s m e \<Rightarrow> Inr (trunc_float s m e)
           | Infinity s \<Rightarrow> Inl (OverflowError ''cannot convert float infinity to integer'')
           | NaN \<Rightarrow> Inl (ValueError ''cannot convert float NaN to integer''))
      | JStr s \<Rightarrow> (case parse s of Inl m \<Rightarrow> Inl (ValueError m) | Inr i \<Rightarrow> Inr i)
      | _ \<Rightarrow>
          Inl (TypeError
                 (''int() argument must be a string, a bytes-like object or a real number, not ''
                  @ [CHR 0x27] @ type_name j @ [CHR 0x27])))"

section \<open>The world outside the client\<close>

datatype level = DEBUG | INFO | WARNING | ERROR

record world =
  http :: "request list \<Rightarrow> request \<Rightarrow> (string \<times> string) + response"
    \<comment> \<open>the network and the remote side: given the requests sent so far, the answer to
        the next one, a response or a transport failure (class, message)\<close>
  clock_ms :: int  \<comment> \<open>\<open>int(time.time() * 1000)\<close>\<close>
  int_of_str :: "string \<Rightarrow> string + int"
    \<comment> \<open>the interpreter's \<open>int(s)\<close> for a str: the value, or the ValueError's message\<close>
  str_json :: "json \<Rightarrow> string"  \<comment> \<open>the interpreter's \<open>str(j)\<close>\<close>
  sent :: "request list"  \<comment> \<open>the requests the session has sent\<close>
  logged :: "(level \<times> string) list"  \<comment> \<open>the records passed to \<open>logger\<close>\<close>

definition logger :: "level \<Rightarrow> string \<Rightarrow> world \<Rightarrow> world" where
  "logger l m w = w\<lparr>logged := logged w @ [(l, m)]\<rparr>"

definition session_send :: "request \<Rightarrow> world \<Rightarrow> ((string \<times> string) + response) \<times> world" where
  "session_send rq w = (http w (sent w) rq, w\<lparr>sent := sent w @ [rq]\<rparr>)"

section \<open>BinanceFuturesRest\<close>

definition TESTNET_BASE :: string where
  "TESTNET_BASE = ''https://testnet.binancefuture.com''"

definition API_ORDER_PATH :: string where
  "API_ORDER_PATH = ''/fapi/v1/order''"

definition API_TIME_PATH :: string where
  "API_TIME_PATH = ''/fapi/v1/time''"

record client =
  api_key :: string
  api_secret :: string  \<comment> \<open>the bytes of the secret\<close>
  base :: string

definition init :: "string \<Rightarrow> string \<Rightarrow> string \<Rightarrow> client" where
  \<comment> \<open>\<open>__init__\<close>; the session sends \<open>api_key\<close> as a header of every request\<close>
  "init key secret base_url =
     \<lparr>api_key = key, api_secret = secret, base = rstrip_slash base_url\<rparr>"

subsection \<open>\<open>_get_timestamp\<close>\<close>

definition time_request :: "client \<Rightarrow> request" where
  "time_request c =
     \<lparr>verb = GET, url = base c @ API_TIME_PATH, apikey = api_key c,
      data = None, params = None, timeout = 5\<rparr>"

definition server_time :: "world \<Rightarrow> (string \<times> string) + response \<Rightarrow> exc + int option" where
  \<comment> \<open>the \<open>try\<close> block once the request is answered; \<open>Inr None\<close> when \<open>server_time\<close>
      is falsy and the block falls through\<close>
  "server_time w res =
     (case res of
        Inl f \<Rightarrow> Inl (RequestException (fst f) (snd f))
      | Inr r \<Rightarrow>
          (case raise_for_status r of
             Inl e \<Rightarrow> Inl e
           | Inr u \<Rightarrow>
               (case json_r r of
                  Inl m \<Rightarrow> Inl (JSONDecodeError m)
                | Inr j \<Rightarrow>
                    (case json_get j ''serverTime'' of
                       Inl e \<Rightarrow> Inl e
                     | Inr st \<Rightarrow>
                         if truthy st then
                           (case py_int (int_of_str w) st of
                              Inl e \<Rightarrow> Inl e
                            | Inr t \<Rightarrow> Inr (Some t))
                         else Inr None))))"

definition get_timestamp :: "client \<Rightarrow> world \<Rightarrow> (exc + int) \<times> world" where
  "get_timestamp c w =
     (case session_send (time_request c) w of
        (res, w1) \<Rightarrow>
          (case server_time w1 res of
             Inr (Some t) \<Rightarrow> (Inr t, w1)
           | Inr None \<Rightarrow> (Inr (clock_ms w1), w1)
           | Inl e \<Rightarrow>
               (Inr (clock_ms w1),
                logger WARNING
                  (''Could not fetch server time: '' @ exc_str e @ '' ''
                   @ [CHR 0xE2, CHR 0x80, CHR 0x94] @ '' falling back to local time'') w1)))"

subsection \<open>\<open>_sign\<close> and \<open>_send_signed\<close>\<close>

definition sign :: "client \<Rightarrow> pydict \<Rightarrow> string" where
  "sign c d = hexdigest (hmac_sha256 (api_secret c) (urlencode d))"

definition order_request :: "client \<Rightarrow> string \<Rightarrow> string \<Rightarrow> string \<Rightarrow> pydict \<Rightarrow> request" where
  "order_request c method u body payload =
     (if upper method = ''POST'' then
        \<lparr>verb = POST, url = u, apikey = api_key c,
         data = Some body, params = None, timeout = 10\<rparr>
      else if upper method = ''DELETE'' then
        \<lparr>verb = DELETE, url = u, apikey = api_key c,
         data = Some body, params = None, timeout = 10\<rparr>
      else
        \<lparr>verb = GET, url = u, apikey = api_key c,
         data = None, params = Some payload, timeout = 10\<rparr>)"

definition handle_response ::
  "world \<Rightarrow> (string \<times> string) + response \<Rightarrow> (exc + json) \<times> world" where
  \<comment> \<open>the \<open>try\<close> block of \<open>_send_signed\<close> once the request is answered, with its handlers\<close>
  "handle_response w res =
     (case res of
        Inl f \<Rightarrow>
          (let e = RequestException (fst f) (snd f)
           in (Inl e, logger ERROR (''Network/Error: '' @ exc_str e) w))
      | Inr r \<Rightarrow>
          (let w1 = logger DEBUG
                      (''RESPONSE ['' @ str_nat (status_code r) @ ''] -> '' @ text_r r) w
           in case raise_for_status r of
                Inl he \<Rightarrow>
                  (let err = (case json_r r of Inr j \<Rightarrow> str_json w j | Inl m \<Rightarrow> text_r r)
                   in (Inl he,
                       logger ERROR
                         (''HTTP error: '' @ exc_str he @ '' | response: '' @ err) w1))
              | Inr u \<Rightarrow>
                  (case json_r r of
                     Inl m \<Rightarrow>
                       (let e = JSONDecodeError m
                        in (Inl e, logger ERROR (''Network/Error: '' @ exc_str e) w1))
                   | Inr j \<Rightarrow> (Inr j, w1))))"

definition send_signed ::
  "client \<Rightarrow> string \<Rightarrow> string \<Rightarrow> pydict \<Rightarrow> world \<Rightarrow> (exc + json) \<times> pydict \<times> world" where
  \<comment> \<open>returns the result, the caller's \<open>payload\<close> dict as the call leaves it, and the world\<close>
  "send_signed c method path payload w =
     (let u = base c @ path
      in case get_timestamp c w of
           (Inl e, w1) \<Rightarrow> (Inl e, payload, w1)
         | (Inr ts, w1) \<Rightarrow>
             (let p1 = dict_set payload ''timestamp'' (PInt ts);
                  signature = sign c p1;
                  p2 = dict_set p1 ''signature'' (PStr signature);
                  body = urlencode p2;
                  w2 = logger DEBUG
                         (''REQUEST -> '' @ method @ '' '' @ u @ '' | body: '' @ body) w1
              in case session_send (order_request c method u body p2) w2 of
                   (res, w3) \<Rightarrow>
                     (case handle_response w3 res of (r, w4) \<Rightarrow> (r, p2, w4))))"

subsection \<open>The public wrappers\<close>

definition float_none :: exc where
  \<comment> \<open>\<open>float(None)\<close>\<close>
  "float_none =
     TypeError (''float() argument must be a string or a real number, not ''
                @ [CHR 0x27] @ ''NoneType'' @ [CHR 0x27])"

definition fmt_qty :: "pyfloat option \<Rightarrow> exc + string" where
  \<comment> \<open>\<open>format(float(q), 'f')\<close> for \<open>q\<close> a float or \<open>None\<close>\<close>
  "fmt_qty q = (case q of None \<Rightarrow> Inl float_none | Some x \<Rightarrow> Inr (format_f x))"

definition fmt_price :: "pyfloat option \<Rightarrow> exc + string" where
  "fmt_price p = (case p of None \<Rightarrow> Inl float_none | Some x \<Rightarrow> Inr (format_f x))"

definition market_payload ::
  "string \<Rightarrow> string \<Rightarrow> pyfloat option \<Rightarrow> bool \<Rightarrow> exc + pydict" where
  "market_payload symbol side quantity reduceOnly =
     (case fmt_qty quantity of
        Inl e \<Rightarrow> Inl e
      | Inr q \<Rightarrow>
          Inr [(''symbol'', PStr symbol),
               (''side'', PStr side),
               (''type'', PStr ''MARKET''),
               (''quantity'', PStr q),
               (''reduceOnly'', PStr (lower (str_bool reduceOnly)))])"

definition limit_payload ::
  "string \<Rightarrow> string \<Rightarrow> pyfloat option \<Rightarrow> pyfloat option \<Rightarrow> string \<Rightarrow> bool \<Rightarrow> exc + pydict" where
  "limit_payload symbol side quantity price timeInForce reduceOnly =
     (case fmt_qty quantity of
        Inl e \<Rightarrow> Inl e
      | Inr q \<Rightarrow>
          (case fmt_price price of
             Inl e \<Rightarrow> Inl e
           | Inr p \<Rightarrow>
               Inr [(''symbol'', PStr symbol),
                    (''side'', PStr side),
                    (''type'', PStr ''LIMIT''),
                    (''timeInForce'', PStr timeInForce),
                    (''quantity'', PStr q),
                    (''price'', PStr p),
                    (''reduceOnly'', PStr (lower (str_bool reduceOnly)))]))"

definition stop_limit_payload ::
  "string \<Rightarrow> string \<Rightarrow> pyfloat option \<Rightarrow> pyfloat option \<Rightarrow> pyfloat option \<Rightarrow> string \<Rightarrow> bool
     \<Rightarrow> exc + pydict" where
  "stop_limit_payload symbol side quantity stopPrice price timeInForce reduceOnly =
     (case fmt_qty quantity of
        Inl e \<Rightarrow> Inl e
      | Inr q \<Rightarrow>
          (case fmt_price stopPrice of
             Inl e \<Rightarrow> Inl e
           | Inr sp \<Rightarrow>
               (case fmt_price price of
                  Inl e \<Rightarrow> Inl e
                | Inr p \<Rightarrow>
                    Inr [(''symbol'', PStr symbol),
                         (''side'', PStr side),
                         (''type'', PStr ''STOP''),
                         (''quantity'', PStr q),
                         (''stopPrice'', PStr sp),
                         (''price'', PStr p),
                         (''timeInForce'', PStr timeInForce),
                         (''reduceOnly'', PStr (lower (str_bool reduceOnly)))])))"

definition submit :: "client \<Rightarrow> exc + pydict \<Rightarrow> world \<Rightarrow> (exc + json) \<times> world" where
  \<comment> \<open>\<open>return self._send_signed('POST', API_ORDER_PATH, payload)\<close>, reached only when
      the dict literal was built\<close>
  "submit c built w =
     (case built of
        Inl e \<Rightarrow> (Inl e, w)
      | Inr payload \<Rightarrow>
          (case send_signed c ''POST'' API_ORDER_PATH payload w of (r, p, w') \<Rightarrow> (r, w')))"

definition place_market_order ::
  "client \<Rightarrow> string \<Rightarrow> string \<Rightarrow> pyfloat option \<Rightarrow> bool \<Rightarrow> string option \<Rightarrow> world
     \<Rightarrow> (exc + json) \<times> world" where
  \<comment> \<open>\<open>timeInForce\<close> is a parameter the body never reads\<close>
  "place_market_order c symbol side quantity reduceOnly timeInForce w =
     submit c (market_payload symbol side quantity reduceOnly) w"

definition place_limit_order ::
  "client \<Rightarrow> string \<Rightarrow> string \<Rightarrow> pyfloat option \<Rightarrow> pyfloat option \<Rightarrow> string \<Rightarrow> bool \<Rightarrow> world
     \<Rightarrow> (exc + json) \<times> world" where
  "place_limit_order c symbol side quantity price timeInForce reduceOnly w =
     submit c (limit_payload symbol side quantity price timeInForce reduceOnly) w"

definition place_stop_limit_order ::
  "client \<Rightarrow> string \<Rightarrow> string \<Rightarrow> pyfloat option \<Rightarrow> pyfloat option \<Rightarrow> pyfloat option \<Rightarrow> string
     \<Rightarrow> bool \<Rightarrow> world \<Rightarrow> (exc + json) \<times> world" where
  "place_stop_limit_order c symbol side quantity stopPrice price timeInForce reduceOnly w =
     submit c (stop_limit_payload symbol side quantity stopPrice price timeInForce reduceOnly) w"

section \<open>Concrete clients and worlds\<close>

text \<open>Inputs at which the properties below are evaluated.\<close>

definition demo_client :: client where
  "demo_client = \<lparr>api_key = ''key'', api_secret = ''secret'', base = TESTNET_BASE\<rparr>"

definition time_body :: "int \<Rightarrow> response" where
  \<comment> \<open>the answer \<open>{"serverTime": t}\<close> of the time endpoint, with status 200\<close>
  "time_body t =
     \<lparr>status_code = 200, reason = ''OK'', url_r = TESTNET_BASE @ API_TIME_PATH,
      text_r = [CHR 0x7B, CHR 0x22] @ ''serverTime'' @ [CHR 0x22] @ '': '' @ str_int t @ ''}'',
      json_r = Inr (JDict [(''serverTime'', JInt t)])\<rparr>"

definition order_body :: response where
  \<comment> \<open>the answer \<open>{"orderId": 1}\<close> of the order endpoint, with status 200\<close>
  "order_body =
     \<lparr>status_code = 200, reason = ''OK'', url_r = TESTNET_BASE @ API_ORDER_PATH,
      text_r = [CHR 0x7B, CHR 0x22] @ ''orderId'' @ [CHR 0x22] @ '': 1}'',
      json_r = Inr (JDict [(''orderId'', JInt 1)])\<rparr>"

definition world_of ::
  "(request list \<Rightarrow> request \<Rightarrow> (string \<times> string) + response) \<Rightarrow> int \<Rightarrow> world" where
  \<comment> \<open>a fresh world: nothing sent, nothing logged\<close>
  "world_of h t =
     \<lparr>http = h, clock_ms = t, int_of_str = (\<lambda>s. Inl ''invalid literal for int()''),
      str_json = (\<lambda>j. ''{...}''), sent = [], logged = []\<rparr>"

definition world_ok :: world where
  \<comment> \<open>the remote side answers both endpoints with status 200; the server's clock
      reads 1700000000000 and the local one 1700000000250\<close>
  "world_ok =
     world_of (\<lambda>s rq. if verb rq = GET then Inr (time_body 1700000000000) else Inr order_body)
       1700000000250"

definition world_down :: world where
  \<comment> \<open>no connection; the local clock reads 1700000000000\<close>
  "world_down =
     world_of (\<lambda>s rq. Inl (''ConnectionError'', ''Connection refused'')) 1700000000000"

definition world_300 :: world where
  \<comment> \<open>the remote side answers status 300 with a decodable body\<close>
  "world_300 =
     world_of (\<lambda>s rq. if verb rq = GET then Inr ((time_body 5)\<lparr>status_code := 300\<rparr>)
                       else Inr (order_body\<lparr>status_code := 300\<rparr>))
       1700000000250"

definition world_400 :: world where
  \<comment> \<open>the time endpoint answers; the order endpoint rejects with status 400\<close>
  "world_400 =
     world_of (\<lambda>s rq. if verb rq = GET then Inr (time_body 1700000000000)
                       else Inr (order_body\<lparr>status_code := 400, reason := ''Bad Request''\<rparr>))
       1700000000250"

definition demo_payload :: pydict where
  "demo_payload =
     [(''symbol'', PStr ''BTCUSDT''), (''side'', PStr ''BUY''), (''type'', PStr ''MARKET''),
      (''quantity'', PStr ''0.001000''), (''reduceOnly'', PStr ''false'')]"

text \<open>
  The dict a call of \<open>_send_signed\<close> leaves in the caller's hands when the clock read
  \<open>ts\<close>: the two assignments \<open>payload['timestamp'] = ts\<close> and
  \<open>payload['signature'] = self._sign(payload)\<close>.
\<close>

definition signed :: "client \<Rightarrow> pydict \<Rightarrow> int \<Rightarrow> pydict" where
  "signed c payload ts =
     dict_set (dict_set payload ''timestamp'' (PInt ts)) ''signature''
       (PStr (sign c (dict_set payload ''timestamp'' (PInt ts))))"

section \<open>Properties\<close>

subsection \<open>Decimal rendering\<close>

lemma str_nat_digits: "set (str_nat n) \<subseteq> set ''0123456789''"
proof (induction n rule: str_nat.induct)
  case (1 n)
  have d: "\<And>k. k < 10 \<Longrightarrow> ''0123456789'' ! k \<in> set ''0123456789''"
    by (rule nth_mem) simp
  show ?case
  proof (cases "n < 10")
    case True
    then show ?thesis using d [of n] by (subst str_nat.simps) simp
  next
    case False
    have "n mod 10 < 10" by simp
    with False 1 d [of "n mod 10"] show ?thesis
      by (subst str_nat.simps) simp
  qed
qed

lemma str_nat_nonempty: "str_nat n \<noteq> []"
  by (subst str_nat.simps) simp

lemma str_nat_length: "n < 10 ^ k \<Longrightarrow> 0 < k \<Longrightarrow> length (str_nat n) \<le> k"
proof (induction n arbitrary: k rule: str_nat.induct)
  case (1 n)
  show ?case
  proof (cases "n < 10")
    case True
    with 1(3) show ?thesis by (subst str_nat.simps) simp
  next
    case False
    obtain j where k: "k = Suc j" using 1(3) by (cases k) auto
    have j: "0 < j" using False 1(2) k by (cases j) auto
    have "n div 10 < 10 ^ j" using 1(2) k by (simp add: less_mult_imp_div_less mult.commute)
    with 1(1) [OF False this j] False k show ?thesis
      by (subst str_nat.simps) simp
  qed
qed

lemma zfill6_length: "length s \<le> 6 \<Longrightarrow> length (zfill6 s) = 6"
  by (simp add: zfill6_def)

lemma zfill6_digits: "set s \<subseteq> set ''0123456789'' \<Longrightarrow> set (zfill6 s) \<subseteq> set ''0123456789''"
  by (auto simp: zfill6_def)

lemma format_f_fixed:
  "\<exists>ip fp. format_f (Finite False m e) = ip @ ''.'' @ fp \<and> ip \<noteq> []
      \<and> set ip \<subseteq> set ''0123456789'' \<and> length fp = 6 \<and> set fp \<subseteq> set ''0123456789''"
proof -
  define n where "n = scaled6 m e"
  have "n mod 10 ^ 6 < 10 ^ 6" by simp
  then have l: "length (str_nat (n mod 10 ^ 6)) \<le> 6" by (rule str_nat_length) simp
  have "format_f (Finite False m e) = str_nat (n div 10 ^ 6) @ ''.'' @ zfill6 (str_nat (n mod 10 ^ 6))"
    by (simp add: format_f_def n_def Let_def)
  moreover have "str_nat (n div 10 ^ 6) \<noteq> []" by (rule str_nat_nonempty)
  moreover have "set (str_nat (n div 10 ^ 6)) \<subseteq> set ''0123456789''" by (rule str_nat_digits)
  moreover have "length (zfill6 (str_nat (n mod 10 ^ 6))) = 6" using l by (rule zfill6_length)
  moreover have "set (zfill6 (str_nat (n mod 10 ^ 6))) \<subseteq> set ''0123456789''"
    by (rule zfill6_digits) (rule str_nat_digits)
  ultimately show ?thesis by blast
qed

lemma str_nat_numeral:
  "str_nat (numeral k) =
     (if (numeral k :: nat) < 10 then [''0123456789'' ! numeral k]
      else str_nat (numeral k div 10) @ [''0123456789'' ! (numeral k mod 10)])"
  by (rule str_nat.simps)

lemma str_nat_0: "str_nat 0 = ''0''"
  by (subst str_nat.simps) simp

lemma str_nat_1: "str_nat (Suc 0) = ''1''"
  by (subst str_nat.simps) simp

lemma replicate_numeral: "replicate (numeral k) x = x # replicate (pred_numeral k) x"
  by (simp add: numeral_eq_Suc)

lemmas str_nat_eval = str_nat_numeral str_nat_0 str_nat_1 replicate_numeral

lemma format_f_milli: "format_f (Finite False 4611686018427388 (-62)) = ''0.001000''"
  by (simp add: format_f_def scaled6_def round_half_even_def Let_def zfill6_def str_nat_eval)

text \<open>
  C7: \<open>_fmt_qty\<close> and \<open>_fmt_price\<close> render every finite float that is not negative as
  digits, a point and six digits, so with no exponent; and the double nearest to 0.001,
  which is \<open>4611686018427388 * 2 ^ -62\<close>, renders as \<open>0.001000\<close>.
\<close>

theorem fmt_fixed_point:
  "(\<exists>ip fp. fmt_qty (Some (Finite False m e)) = Inr (ip @ ''.'' @ fp)
       \<and> ip \<noteq> [] \<and> set ip \<subseteq> set ''0123456789''
       \<and> length fp = 6 \<and> set fp \<subseteq> set ''0123456789''
       \<and> CHR ''e'' \<notin> set (ip @ ''.'' @ fp) \<and> CHR ''E'' \<notin> set (ip @ ''.'' @ fp))
   \<and> fmt_price (Some (Finite False m e)) = fmt_qty (Some (Finite False m e))
   \<and> fmt_qty (Some (Finite False 4611686018427388 (-62))) = Inr ''0.001000''"
proof -
  obtain ip fp where f: "format_f (Finite False m e) = ip @ ''.'' @ fp" "ip \<noteq> []"
      "set ip \<subseteq> set ''0123456789''" "length fp = 6" "set fp \<subseteq> set ''0123456789''"
    using format_f_fixed [of m e] by blast
  have "CHR ''e'' \<notin> set ip" "CHR ''E'' \<notin> set ip" "CHR ''e'' \<notin> set fp" "CHR ''E'' \<notin> set fp"
    using f(3,5) by auto
  then have "CHR ''e'' \<notin> set (ip @ ''.'' @ fp)" "CHR ''E'' \<notin> set (ip @ ''.'' @ fp)"
    by simp_all
  with f have "\<exists>ip fp. fmt_qty (Some (Finite False m e)) = Inr (ip @ ''.'' @ fp)
       \<and> ip \<noteq> [] \<and> set ip \<subseteq> set ''0123456789''
       \<and> length fp = 6 \<and> set fp \<subseteq> set ''0123456789''
       \<and> CHR ''e'' \<notin> set (ip @ ''.'' @ fp) \<and> CHR ''E'' \<notin> set (ip @ ''.'' @ fp)"
    unfolding fmt_qty_def by (intro exI [of _ ip] exI [of _ fp]) simp
  moreover have "fmt_price (Some (Finite False m e)) = fmt_qty (Some (Finite False m e))"
    by (simp add: fmt_price_def fmt_qty_def)
  moreover have "fmt_qty (Some (Finite False 4611686018427388 (-62))) = Inr ''0.001000''"
    by (simp add: fmt_qty_def format_f_milli)
  ultimately show ?thesis by blast
qed

subsection \<open>The payloads\<close>

lemma lower_str_bool: "lower (str_bool b) = (if b then ''true'' else ''false'')"
  by (simp add: lower_def lower_char_def str_bool_def)

text \<open>
  C4: for an intent whose quantity and prices are given, the dict built before signing
  has exactly the fields of the table, in this order: five for MARKET, seven for LIMIT,
  eight for STOP_LIMIT (sent as type STOP); \<open>reduceOnly\<close> is the string \<open>true\<close> or
  \<open>false\<close>; and each wrapper hands this dict to \<open>_send_signed\<close>.
\<close>

theorem payload_fields:
  "market_payload symbol side (Some q) ro =
     Inr [(''symbol'', PStr symbol), (''side'', PStr side), (''type'', PStr ''MARKET''),
          (''quantity'', PStr (format_f q)),
          (''reduceOnly'', PStr (if ro then ''true'' else ''false''))]
   \<and> limit_payload symbol side (Some q) (Some p) tif ro =
     Inr [(''symbol'', PStr symbol), (''side'', PStr side), (''type'', PStr ''LIMIT''),
          (''timeInForce'', PStr tif), (''quantity'', PStr (format_f q)),
          (''price'', PStr (format_f p)),
          (''reduceOnly'', PStr (if ro then ''true'' else ''false''))]
   \<and> stop_limit_payload symbol side (Some q) (Some sp) (Some p) tif ro =
     Inr [(''symbol'', PStr symbol), (''side'', PStr side), (''type'', PStr ''STOP''),
          (''quantity'', PStr (format_f q)), (''stopPrice'', PStr (format_f sp)),
          (''price'', PStr (format_f p)), (''timeInForce'', PStr tif),
          (''reduceOnly'', PStr (if ro then ''true'' else ''false''))]
   \<and> place_market_order c symbol side (Some q) ro unused w =
     submit c (market_payload symbol side (Some q) ro) w
   \<and> place_limit_order c symbol side (Some q) (Some p) tif ro w =
     submit c (limit_payload symbol side (Some q) (Some p) tif ro) w
   \<and> place_stop_limit_order c symbol side (Some q) (Some sp) (Some p) tif ro w =
     submit c (stop_limit_payload symbol side (Some q) (Some sp) (Some p) tif ro) w"
  by (simp add: market_payload_def limit_payload_def stop_limit_payload_def fmt_qty_def
      fmt_price_def lower_str_bool place_market_order_def place_limit_order_def
      place_stop_limit_order_def)

subsection \<open>Dictionaries, encoding and digests\<close>

lemma dict_set_append: "k \<notin> set (keys d) \<Longrightarrow> dict_set d k v = d @ [(k, v)]"
  by (induction d) (auto simp: keys_def)

lemma fst_in_keys: "(a, b) \<in> set d \<Longrightarrow> a \<in> fst ` set d"
  by force

lemma keys_dict_set_list:
  "keys (dict_set d k v) = (if k \<in> set (keys d) then keys d else keys d @ [k])"
  by (induction d) (auto simp: keys_def dest: fst_in_keys)

lemma keys_dict_set: "set (keys (dict_set d k v)) = insert k (set (keys d))"
  by (auto simp: keys_dict_set_list)

lemma dict_set_nonempty: "dict_set d k v \<noteq> []"
  by (cases d) (auto split: if_splits)

lemma join_snoc: "xs \<noteq> [] \<Longrightarrow> join sep (xs @ [y]) = join sep xs @ sep @ y"
  by (induction sep xs rule: join.induct) auto

lemma urlencode_snoc: "d \<noteq> [] \<Longrightarrow> urlencode (d @ [kv]) = urlencode d @ ''&'' @ urlencode_item kv"
  by (simp add: urlencode_def join_snoc)

lemma quote_plus_safe: "set s \<subseteq> set always_safe \<Longrightarrow> quote_plus s = s"
  by (induction s) (auto simp: quote_plus_def quote_char_def)

lemma hex_lower_chars: "n < 256 \<Longrightarrow> set (hex_lower n) \<subseteq> set ''0123456789abcdef''"
proof -
  assume "n < 256"
  then have a: "n div 16 < 16" by simp
  have b: "n mod 16 < 16" by simp
  have "\<And>k. k < 16 \<Longrightarrow> ''0123456789abcdef'' ! k \<in> set ''0123456789abcdef''"
    by (rule nth_mem) simp
  from this [OF a] this [OF b] show ?thesis by (simp add: hex_lower_def)
qed

lemma of_char_less: "(of_char c :: nat) < 256"
proof -
  have "of_char c mod 256 = (of_char c :: nat)" by simp
  then show ?thesis by (metis mod_less_divisor zero_less_numeral)
qed

lemma hexdigest_chars: "set (hexdigest d) \<subseteq> set ''0123456789abcdef''"
  unfolding hexdigest_def using hex_lower_chars [OF of_char_less] by (induction d) auto

lemma hexdigest_length: "length (hexdigest d) = 2 * length d"
  by (induction d) (auto simp: hexdigest_def hex_lower_def)

lemma round_step_length: "length s = 8 \<Longrightarrow> length (round_step kw s) = 8"
  by (cases "(kw, s)" rule: round_step.cases) (auto simp: Let_def)

lemma fold_round_step_length: "length s = 8 \<Longrightarrow> length (fold round_step kws s) = 8"
  by (induction kws arbitrary: s) (auto simp: round_step_length)

lemma compress_length: "length hs = 8 \<Longrightarrow> length (compress hs b) = 8"
  by (simp add: compress_def fold_round_step_length)

lemma sha_blocks_length: "length hs = 8 \<Longrightarrow> length (sha_blocks hs bs) = 8"
proof (induction hs bs rule: sha_blocks.induct)
  case (1 hs bs)
  then show ?case by (subst sha_blocks.simps) (simp add: compress_length)
qed

lemma concat_bytes_length: "length (concat (map bytes_of_word ws)) = 4 * length ws"
  by (induction ws) (simp_all add: bytes_of_word_def)

lemma sha256_length: "length (sha256 m) = 32"
  by (simp add: sha256_def concat_bytes_length sha_blocks_length H256_def)

lemma sign_length: "length (sign c d) = 64"
  by (simp add: sign_def hexdigest_length hmac_sha256_def sha256_length)

lemma sign_chars: "set (sign c d) \<subseteq> set ''0123456789abcdef''"
  unfolding sign_def by (rule hexdigest_chars)

lemma hex_safe: "set ''0123456789abcdef'' \<subseteq> set always_safe"
  by (simp add: always_safe_def)

lemma quote_plus_sign: "quote_plus (sign c d) = sign c d"
  by (rule quote_plus_safe) (rule subset_trans [OF sign_chars hex_safe])

lemma quote_plus_signature: "quote_plus ''signature'' = ''signature''"
  by (rule quote_plus_safe) (simp add: always_safe_def)

lemma urlencode_item_signature:
  "urlencode_item (''signature'', PStr (sign c d)) = ''signature='' @ sign c d"
  by (simp only: urlencode_item_def fst_conv snd_conv str_pyval_def pyval.case
      quote_plus_sign quote_plus_signature append.simps append_assoc)

subsection \<open>The timestamp and the signed request\<close>

lemma logger_fields [simp]:
  "sent (logger l m w) = sent w" "http (logger l m w) = http w"
  "clock_ms (logger l m w) = clock_ms w" "int_of_str (logger l m w) = int_of_str w"
  "str_json (logger l m w) = str_json w" "logged (logger l m w) = logged w @ [(l, m)]"
  by (simp_all add: logger_def)

lemma get_timestamp_cases:
  "get_timestamp c w =
     (case server_time (w\<lparr>sent := sent w @ [time_request c]\<rparr>) (http w (sent w) (time_request c)) of
        Inr (Some t) \<Rightarrow> (Inr t, w\<lparr>sent := sent w @ [time_request c]\<rparr>)
      | Inr None \<Rightarrow> (Inr (clock_ms w), w\<lparr>sent := sent w @ [time_request c]\<rparr>)
      | Inl e \<Rightarrow>
          (Inr (clock_ms w),
           logger WARNING
             (''Could not fetch server time: '' @ exc_str e @ '' ''
              @ [CHR 0xE2, CHR 0x80, CHR 0x94] @ '' falling back to local time'')
             (w\<lparr>sent := sent w @ [time_request c]\<rparr>)))"
  by (simp add: get_timestamp_def session_send_def split: sum.splits option.splits)

lemma get_timestamp_returns: "\<exists>t. fst (get_timestamp c w) = Inr t"
  by (simp add: get_timestamp_cases split: sum.splits option.splits)

lemma get_timestamp_world:
  "sent (snd (get_timestamp c w)) = sent w @ [time_request c]"
  "http (snd (get_timestamp c w)) = http w"
  "str_json (snd (get_timestamp c w)) = str_json w"
  by (simp_all add: get_timestamp_cases split: sum.splits option.splits)

lemma handle_response_sent: "sent (snd (handle_response w res)) = sent w"
  by (simp add: handle_response_def Let_def split: sum.splits)

lemma send_signed_eq:
  assumes "get_timestamp c w = (Inr ts, w1)"
  shows "send_signed c m path payload w =
     (let p2 = signed c payload ts;
          w2 = logger DEBUG (''REQUEST -> '' @ m @ '' '' @ (base c @ path) @ '' | body: ''
                              @ urlencode p2) w1;
          rq = order_request c m (base c @ path) (urlencode p2) p2;
          h = handle_response (w2\<lparr>sent := sent w2 @ [rq]\<rparr>) (http w2 (sent w2) rq)
      in (fst h, p2, snd h))"
  using assms by (simp add: send_signed_def signed_def Let_def session_send_def split: prod.splits)

lemma send_signed_payload:
  assumes "fst (get_timestamp c w) = Inr ts"
  shows "fst (snd (send_signed c m path payload w)) = signed c payload ts"
proof -
  obtain w1 where "get_timestamp c w = (Inr ts, w1)" using assms by (cases "get_timestamp c w") auto
  from send_signed_eq [OF this] show ?thesis by (simp add: Let_def)
qed

lemma send_signed_sent:
  assumes "fst (get_timestamp c w) = Inr ts"
  shows "sent (snd (snd (send_signed c m path payload w))) =
     sent w @ [time_request c,
               order_request c m (base c @ path) (urlencode (signed c payload ts)) (signed c payload ts)]"
proof -
  obtain w1 where g: "get_timestamp c w = (Inr ts, w1)" using assms by (cases "get_timestamp c w") auto
  then have "sent w1 = sent w @ [time_request c]" using get_timestamp_world(1) [of c w] by simp
  with send_signed_eq [OF g] show ?thesis by (simp add: Let_def handle_response_sent)
qed

lemma signed_append:
  assumes "''signature'' \<notin> set (keys payload)"
  shows "signed c payload ts =
           dict_set payload ''timestamp'' (PInt ts)
           @ [(''signature'', PStr (sign c (dict_set payload ''timestamp'' (PInt ts))))]"
    and "''signature'' \<notin> set (keys (dict_set payload ''timestamp'' (PInt ts)))"
proof -
  show n: "''signature'' \<notin> set (keys (dict_set payload ''timestamp'' (PInt ts)))"
    using assms by (simp add: keys_dict_set)
  show "signed c payload ts =
           dict_set payload ''timestamp'' (PInt ts)
           @ [(''signature'', PStr (sign c (dict_set payload ''timestamp'' (PInt ts))))]"
    unfolding signed_def by (rule dict_set_append [OF n])
qed

lemma urlencode_signed:
  assumes "''signature'' \<notin> set (keys payload)"
  shows "urlencode (signed c payload ts) =
     urlencode (dict_set payload ''timestamp'' (PInt ts)) @ ''&signature=''
     @ sign c (dict_set payload ''timestamp'' (PInt ts))"
  by (simp only: signed_append(1) [OF assms] urlencode_snoc [OF dict_set_nonempty]
      urlencode_item_signature) simp

end
